theory Spec2Isabelle
  imports Main "HOL-Library.Sublist"
begin

section \<open>Python values\<close>

text \<open>
  The library of \<^verbatim>\<open>Testovoe.py\<close> is dynamically typed: a book's fields, the arguments of
  the catalogue's methods and the content of the data file are arbitrary Python values.
  The embedding works over the values that JSON can carry (\<^verbatim>\<open>None\<close>, \<^verbatim>\<open>bool\<close>, \<^verbatim>\<open>int\<close>,
  \<^verbatim>\<open>str\<close>, \<^verbatim>\<open>list\<close>, \<^verbatim>\<open>dict\<close> with string keys); floating point numbers are left out.
  A Python string is a sequence of Unicode code points, so it is a list of naturals here
  (a HOL \<open>char\<close> is a byte and could not hold the Cyrillic status texts).
  A \<open>PDict\<close> lists its items in insertion order, with distinct keys.
\<close>

type_synonym pystr = "nat list"

datatype pyval =
    PNone
  | PBool bool
  | PInt int
  | PStr pystr
  | PList "pyval list"
  | PDict "(pystr \<times> pyval) list"

text \<open>The exception classes of the module and the builtin ones its code can raise.\<close>

datatype error =
    BookNotFoundError
  | InvalidInputError
  | InvalidStatusError
  | TypeError
  | KeyError
  | AttributeError
  | ValueError
  | UnicodeDecodeError

text \<open>\<^verbatim>\<open>not x\<close> is the negation of Python's truth value of \<open>x\<close>.\<close>

fun truthy :: "pyval \<Rightarrow> bool" where
  "truthy PNone = False"
| "truthy (PBool b) = b"
| "truthy (PInt n) = (n \<noteq> 0)"
| "truthy (PStr s) = (s \<noteq> [])"
| "truthy (PList xs) = (xs \<noteq> [])"
| "truthy (PDict kvs) = (kvs \<noteq> [])"

text \<open>
  \<^verbatim>\<open>isinstance(x, int)\<close> holds of integers and of booleans (\<^verbatim>\<open>bool\<close> is a subclass of
  \<^verbatim>\<open>int\<close>); \<open>int_value\<close> is the integer such a value stands for.
\<close>

fun int_value :: "pyval \<Rightarrow> int option" where
  "int_value (PInt n) = Some n"
| "int_value (PBool b) = Some (if b then 1 else 0)"
| "int_value _ = None"

text \<open>
  \<^verbatim>\<open>x == y\<close>: numbers compare by value (\<^verbatim>\<open>True == 1\<close>), strings and lists by content,
  dictionaries by their items whatever the order, values of different kinds are unequal.
\<close>

fun py_eq :: "pyval \<Rightarrow> pyval \<Rightarrow> bool" where
  "py_eq PNone PNone = True"
| "py_eq (PStr s) (PStr t) = (s = t)"
| "py_eq (PList xs) (PList ys) = list_all2 py_eq xs ys"
| "py_eq (PDict a) (PDict b) =
     (list_all (\<lambda>(k, v). case map_of b k of None \<Rightarrow> False | Some v' \<Rightarrow> py_eq v v') a
      \<and> list_all (\<lambda>(k, v). map_of a k \<noteq> None) b)"
| "py_eq x y = (case (int_value x, int_value y) of (Some m, Some n) \<Rightarrow> m = n | _ \<Rightarrow> False)"

text \<open>
  \<^verbatim>\<open>int(x)\<close>. The conversion of a string (signs, blanks, underscores, the decimal digits
  of every script) is the builtin's business: it is the parameter \<open>str_int\<close>, which
  answers \<open>None\<close> where the builtin raises \<^verbatim>\<open>ValueError\<close>.
\<close>

definition py_int :: "(pystr \<Rightarrow> int option) \<Rightarrow> pyval \<Rightarrow> error + int" where
  "py_int str_int v =
     (case v of
        PInt n \<Rightarrow> Inr n
      | PBool b \<Rightarrow> Inr (if b then 1 else 0)
      | PStr s \<Rightarrow> (case str_int s of None \<Rightarrow> Inl ValueError | Some n \<Rightarrow> Inr n)
      | _ \<Rightarrow> Inl TypeError)"

text \<open>\<^verbatim>\<open>d[key]\<close> with a string key: only a dictionary can answer.\<close>

definition subscript :: "pyval \<Rightarrow> pystr \<Rightarrow> error + pyval" where
  "subscript d key =
     (case d of
        PDict kvs \<Rightarrow> (case map_of kvs key of None \<Rightarrow> Inl KeyError | Some v \<Rightarrow> Inr v)
      | _ \<Rightarrow> Inl TypeError)"

text \<open>
  \<^verbatim>\<open>for x in data\<close>: a list yields its elements, a dictionary its keys, a string its
  characters; nothing else here is iterable.
\<close>

definition iterate :: "pyval \<Rightarrow> error + pyval list" where
  "iterate data =
     (case data of
        PList xs \<Rightarrow> Inr xs
      | PDict kvs \<Rightarrow> Inr (map (\<lambda>(k, v). PStr k) kvs)
      | PStr s \<Rightarrow> Inr (map (\<lambda>c. PStr [c]) s)
      | _ \<Rightarrow> Inl TypeError)"

section \<open>Books\<close>

text \<open>The two status texts, \<^verbatim>\<open>'v nalichii'\<close> (in stock) and \<^verbatim>\<open>'vydana'\<close> (issued), in Cyrillic.\<close>

definition in_stock :: pystr where
  "in_stock = [0x432, 0x20, 0x43D, 0x430, 0x43B, 0x438, 0x447, 0x438, 0x438]"

definition issued :: pystr where
  "issued = [0x432, 0x44B, 0x434, 0x430, 0x43D, 0x430]"

text \<open>\<^verbatim>\<open>status in ['v nalichii', 'vydana']\<close>: membership by \<^verbatim>\<open>==\<close>.\<close>

definition valid_status :: "pyval \<Rightarrow> bool" where
  "valid_status st = list_ex (py_eq st) [PStr in_stock, PStr issued]"

record book =
  book_id :: pyval
  title :: pyval
  author :: pyval
  year :: pyval
  status :: pyval

text \<open>\<^verbatim>\<open>Book.__init__(title, author, year, status, id)\<close>.\<close>

definition Book_init :: "pyval \<Rightarrow> pyval \<Rightarrow> pyval \<Rightarrow> pyval \<Rightarrow> pyval \<Rightarrow> error + book" where
  "Book_init t a y st i =
     (if \<not> valid_status st then Inl InvalidStatusError
      else Inr \<lparr>book_id = i, title = t, author = a, year = y, status = st\<rparr>)"

definition key_id :: pystr where "key_id = map of_char ''id''"
definition key_title :: pystr where "key_title = map of_char ''title''"
definition key_author :: pystr where "key_author = map of_char ''author''"
definition key_year :: pystr where "key_year = map of_char ''year''"
definition key_status :: pystr where "key_status = map of_char ''status''"

definition to_dict :: "book \<Rightarrow> pyval" where
  "to_dict b =
     PDict [(key_id, book_id b), (key_title, title b), (key_author, author b),
            (key_year, year b), (key_status, status b)]"

section \<open>The library and its data file\<close>

text \<open>
  What reading the data file yields: \<^verbatim>\<open>open\<close> raises \<^verbatim>\<open>FileNotFoundError\<close> (\<open>NoFile\<close>) or
  another \<^verbatim>\<open>OSError\<close> (\<open>Unreadable\<close>); the bytes are not UTF-8 (\<open>BadEncoding\<close>:
  \<^verbatim>\<open>UnicodeDecodeError\<close>); the text is not JSON (\<open>BadJSON\<close>: \<^verbatim>\<open>json.JSONDecodeError\<close>);
  or \<^verbatim>\<open>json.load\<close> returns a value (\<open>Document\<close>). The byte-level encoding and the JSON
  grammar belong to Python's library and are not modelled: a written document is read back
  as the value that was written.
\<close>

datatype resource =
    NoFile
  | Unreadable
  | BadEncoding
  | BadJSON
  | Document pyval

text \<open>
  What a write does: it succeeds, or it raises \<^verbatim>\<open>IOError\<close> and leaves the file in some
  state (untouched, truncated, ...), which the environment chooses.
\<close>

datatype write_result = Written | WriteError resource

record library =
  books :: "book list"
  next_id :: int
  data_file :: resource

definition save_data :: "write_result \<Rightarrow> library \<Rightarrow> library" where
  "save_data w s =
     (case w of
        Written \<Rightarrow> s\<lparr>data_file := Document (PList (map to_dict (books s)))\<rparr>
      | WriteError r \<Rightarrow> s\<lparr>data_file := r\<rparr>)"

text \<open>
  The body of the loop of \<^verbatim>\<open>load_data\<close>: the five lookups, in the order the call writes
  them, then the constructor.
\<close>

definition book_of :: "pyval \<Rightarrow> error + book" where
  "book_of d =
     (case subscript d key_title of Inl e \<Rightarrow> Inl e | Inr t \<Rightarrow>
      case subscript d key_author of Inl e \<Rightarrow> Inl e | Inr a \<Rightarrow>
      case subscript d key_year of Inl e \<Rightarrow> Inl e | Inr y \<Rightarrow>
      case subscript d key_status of Inl e \<Rightarrow> Inl e | Inr st \<Rightarrow>
      case subscript d key_id of Inl e \<Rightarrow> Inl e | Inr i \<Rightarrow>
      Book_init t a y st i)"

text \<open>The loop: \<open>acc\<close> is \<^verbatim>\<open>self.books\<close>, which keeps what was appended when an item raises.\<close>

fun load_books :: "pyval list \<Rightarrow> book list \<Rightarrow> (error + unit) \<times> book list" where
  "load_books [] acc = (Inr (), acc)"
| "load_books (d # ds) acc =
     (case book_of d of
        Inl e \<Rightarrow> (Inl e, acc)
      | Inr b \<Rightarrow> load_books ds (acc @ [b]))"

fun maximum :: "int \<Rightarrow> int list \<Rightarrow> int" where
  "maximum m [] = m"
| "maximum m (k # ks) = maximum (max m k) ks"

text \<open>
  \<^verbatim>\<open>max(book.id for book in self.books) + 1\<close> on a non-empty list. When an id is not an
  integer, either a comparison inside \<^verbatim>\<open>max\<close> or the addition of 1 raises \<^verbatim>\<open>TypeError\<close>.
\<close>

definition max_id_plus_1 :: "book list \<Rightarrow> error + int" where
  "max_id_plus_1 bs =
     (case those (map (\<lambda>b. int_value (book_id b)) bs) of
        None \<Rightarrow> Inl TypeError
      | Some [] \<Rightarrow> Inl ValueError
      | Some (k # ks) \<Rightarrow> Inr (maximum k ks + 1))"

definition load_data :: "library \<Rightarrow> (error + unit) \<times> library" where
  "load_data s =
     (case data_file s of
        NoFile \<Rightarrow> (Inr (), s\<lparr>books := []\<rparr>)
      | Unreadable \<Rightarrow> (Inr (), s\<lparr>books := []\<rparr>)
      | BadJSON \<Rightarrow> (Inr (), s\<lparr>books := []\<rparr>)
      | BadEncoding \<Rightarrow> (Inl UnicodeDecodeError, s)
      | Document data \<Rightarrow>
          (case iterate data of
             Inl e \<Rightarrow> (Inl e, s\<lparr>books := []\<rparr>)
           | Inr items \<Rightarrow>
               (case load_books items [] of
                  (Inl e, bs) \<Rightarrow> (Inl e, s\<lparr>books := bs\<rparr>)
                | (Inr u, bs) \<Rightarrow>
                    if bs \<noteq> [] then
                      (case max_id_plus_1 bs of
                         Inl e \<Rightarrow> (Inl e, s\<lparr>books := bs\<rparr>)
                       | Inr n \<Rightarrow> (Inr (), s\<lparr>books := bs, next_id := n\<rparr>))
                    else (Inr (), s\<lparr>books := bs, next_id := 1\<rparr>))))"

text \<open>
  \<^verbatim>\<open>Library.__init__\<close>, on the data file it finds: an exception of \<^verbatim>\<open>load_data\<close> leaves
  the caller without a library. (Creating the data folder is not part of the model.)
\<close>

definition Library_init :: "write_result \<Rightarrow> resource \<Rightarrow> error + library" where
  "Library_init w r =
     (case load_data \<lparr>books = [], next_id = 1, data_file = r\<rparr> of
        (Inl e, s) \<Rightarrow> Inl e
      | (Inr u, s) \<Rightarrow> Inr (save_data w s))"

section \<open>The operations\<close>

text \<open>
  Every method takes the library and returns its result, or the exception it raises,
  with the library as the call leaves it. \<open>w\<close> is what the write of \<^verbatim>\<open>save_data\<close> will do.
  The first argument of \<^verbatim>\<open>add_book\<close> is a \<^verbatim>\<open>Book\<close> instance or any other value; an
  instance is taken by value, so it must not be one the catalogue already holds.
\<close>

datatype add_arg = ABook book | AVal pyval

definition default_status :: pyval where
  "default_status = PStr in_stock"

definition append_book :: "write_result \<Rightarrow> library \<Rightarrow> book \<Rightarrow> (error + book) \<times> library" where
  "append_book w s b =
     (let b' = b\<lparr>book_id := PInt (next_id s)\<rparr>
      in (Inr b', save_data w (s\<lparr>next_id := next_id s + 1, books := books s @ [b']\<rparr>)))"

definition add_book ::
  "(pystr \<Rightarrow> int option) \<Rightarrow> write_result \<Rightarrow> library \<Rightarrow> add_arg \<Rightarrow> pyval \<Rightarrow> pyval
     \<Rightarrow> (error + book) \<times> library" where
  "add_book str_int w s book_or_title author_arg year_arg =
     (case book_or_title of
        ABook b \<Rightarrow>
          if \<not> truthy (title b) \<or> \<not> truthy (author b) \<or> \<not> truthy (year b)
          then (Inl InvalidInputError, s)
          else if int_value (year b) = None then (Inl InvalidInputError, s)
          else append_book w s b
      | AVal t \<Rightarrow>
          if \<not> truthy t \<or> \<not> truthy author_arg \<or> \<not> truthy year_arg
          then (Inl InvalidInputError, s)
          else
            (case py_int str_int year_arg of
               Inl e \<Rightarrow> (Inl (if e = ValueError then InvalidInputError else e), s)
             | Inr y \<Rightarrow>
                 (case Book_init t author_arg (PInt y) default_status PNone of
                    Inl e \<Rightarrow> (Inl e, s)
                  | Inr b \<Rightarrow> append_book w s b)))"

definition delete_book :: "write_result \<Rightarrow> library \<Rightarrow> pyval \<Rightarrow> (error + unit) \<times> library" where
  "delete_book w s i =
     (let original_length = length (books s);
          s' = s\<lparr>books := filter (\<lambda>b. \<not> py_eq (book_id b) i) (books s)\<rparr>
      in if length (books s') = original_length then (Inl BookNotFoundError, s')
         else (Inr (), save_data w s'))"

text \<open>
  One comprehension of \<^verbatim>\<open>search_book\<close> over a text field: \<^verbatim>\<open>.lower()\<close> of a field that
  is not a string raises \<^verbatim>\<open>AttributeError\<close>. Unicode lower-casing is the parameter \<open>lower\<close>.
\<close>

fun text_filter ::
  "(pystr \<Rightarrow> pystr) \<Rightarrow> (book \<Rightarrow> pyval) \<Rightarrow> pystr \<Rightarrow> book list \<Rightarrow> error + book list" where
  "text_filter lower field needle [] = Inr []"
| "text_filter lower field needle (b # bs) =
     (case field b of
        PStr t \<Rightarrow>
          (case text_filter lower field needle bs of
             Inl e \<Rightarrow> Inl e
           | Inr r \<Rightarrow> Inr (if sublist (lower needle) (lower t) then b # r else r))
      | _ \<Rightarrow> Inl AttributeError)"

definition search_book ::
  "(pystr \<Rightarrow> pystr) \<Rightarrow> library \<Rightarrow> pyval \<Rightarrow> pyval \<Rightarrow> pyval \<Rightarrow> (error + book list) \<times> library" where
  "search_book lower s title_arg author_arg year_arg =
     (case (if title_arg \<noteq> PNone
            then (case title_arg of
                    PStr t \<Rightarrow> text_filter lower title t (books s)
                  | _ \<Rightarrow> Inl TypeError)
            else Inr (books s)) of
        Inl e \<Rightarrow> (Inl e, s)
      | Inr r1 \<Rightarrow>
     (case (if author_arg \<noteq> PNone
            then (case author_arg of
                    PStr a \<Rightarrow> text_filter lower author a r1
                  | _ \<Rightarrow> Inl TypeError)
            else Inr r1) of
        Inl e \<Rightarrow> (Inl e, s)
      | Inr r2 \<Rightarrow>
     (case (if year_arg \<noteq> PNone
            then (if int_value year_arg = None then Inl TypeError
                  else Inr (filter (\<lambda>b. py_eq (year b) year_arg) r2))
            else Inr r2) of
        Inl e \<Rightarrow> (Inl e, s)
      | Inr r3 \<Rightarrow> (Inr r3, s))))"

text \<open>The loop of \<^verbatim>\<open>change_status\<close>: the first book with the id gets the status.\<close>

fun set_status :: "pyval \<Rightarrow> pyval \<Rightarrow> book list \<Rightarrow> book list option" where
  "set_status i st [] = None"
| "set_status i st (b # bs) =
     (if py_eq (book_id b) i then Some (b\<lparr>status := st\<rparr> # bs)
      else map_option ((#) b) (set_status i st bs))"

definition change_status ::
  "write_result \<Rightarrow> library \<Rightarrow> pyval \<Rightarrow> pyval \<Rightarrow> (error + unit) \<times> library" where
  "change_status w s i st =
     (if \<not> valid_status st then (Inl InvalidStatusError, s)
      else
        (case set_status i st (books s) of
           Some bs \<Rightarrow> (Inr (), save_data w (s\<lparr>books := bs\<rparr>))
         | None \<Rightarrow> (Inl BookNotFoundError, s)))"

section \<open>Records, catalogue states and histories\<close>

fun is_str :: "pyval \<Rightarrow> bool" where
  "is_str (PStr s) = True"
| "is_str _ = False"

fun is_int :: "pyval \<Rightarrow> bool" where
  "is_int (PInt n) = True"
| "is_int _ = False"

text \<open>
  A record as the data model types it: an integer id, title and author text, an integer
  year, one of the two status texts.
\<close>

definition valid_record :: "book \<Rightarrow> bool" where
  "valid_record b =
     (is_int (book_id b) \<and> is_str (title b) \<and> is_str (author b) \<and> is_int (year b)
      \<and> (status b = PStr in_stock \<or> status b = PStr issued))"



text \<open>
  A filter text is a case-insensitive substring of a field: after lower-casing both,
  the one occurs in the other.
\<close>

definition ci_substring :: "(pystr \<Rightarrow> pystr) \<Rightarrow> pystr \<Rightarrow> pyval \<Rightarrow> bool" where
  "ci_substring lower needle v =
     (case v of PStr t \<Rightarrow> sublist (lower needle) (lower t) | _ \<Rightarrow> False)"



text \<open>
  The life of a library in one process: it is constructed once (which loads the data
  file, the only time it is read), then books are added, deleted, searched and have
  their status changed. \<open>exec\<close> is the library a call leaves, whether it returned or
  raised.
\<close>

datatype command =
    Add add_arg pyval pyval
  | Delete pyval
  | Search pyval pyval pyval
  | ChangeStatus pyval pyval

definition exec ::
  "(pystr \<Rightarrow> int option) \<Rightarrow> (pystr \<Rightarrow> pystr) \<Rightarrow> write_result \<Rightarrow> command \<Rightarrow> library
     \<Rightarrow> library" where
  "exec str_int lower w c s =
     (case c of
        Add x a y \<Rightarrow> snd (add_book str_int w s x a y)
      | Delete i \<Rightarrow> snd (delete_book w s i)
      | Search t a y \<Rightarrow> snd (search_book lower s t a y)
      | ChangeStatus i st \<Rightarrow> snd (change_status w s i st))"

definition ids :: "library \<Rightarrow> pyval set" where
  "ids s = book_id ` set (books s)"

text \<open>
  \<open>history str_int lower A s\<close>: the process has reached the library \<open>s\<close>, and \<open>A\<close> holds
  every id that a book of the catalogue has had since the construction, the deleted
  ones included.
\<close>

inductive history ::
  "(pystr \<Rightarrow> int option) \<Rightarrow> (pystr \<Rightarrow> pystr) \<Rightarrow> pyval set \<Rightarrow> library \<Rightarrow> bool"
  for str_int :: "pystr \<Rightarrow> int option" and lower :: "pystr \<Rightarrow> pystr" where
  constructed: "Library_init w r = Inr s \<Longrightarrow> history str_int lower (ids s) s"
| called:
    "history str_int lower A s \<Longrightarrow>
     history str_int lower (A \<union> ids (exec str_int lower w c s)) (exec str_int lower w c s)"

text \<open>An id is below the counter: it is an integer, and a smaller one.\<close>

definition below :: "int \<Rightarrow> pyval \<Rightarrow> bool" where
  "below n v = (case int_value v of None \<Rightarrow> False | Some k \<Rightarrow> k < n)"

text \<open>The identifiers of the catalogue are integers, and no two books share one.\<close>

definition unique_ids :: "library \<Rightarrow> bool" where
  "unique_ids s =
     (list_all (\<lambda>b. int_value (book_id b) \<noteq> None) (books s)
      \<and> distinct (map (\<lambda>b. int_value (book_id b)) (books s)))"

definition counted :: "library \<Rightarrow> bool" where
  "counted s = (\<forall>b\<in>set (books s). below (next_id s) (book_id b))"

text \<open>A filter that was supplied (it is not \<^verbatim>\<open>None\<close>) with a value of the wrong type.\<close>

definition wrong_text :: "pyval \<Rightarrow> bool" where
  "wrong_text v = (v \<noteq> PNone \<and> \<not> is_str v)"

definition wrong_year :: "pyval \<Rightarrow> bool" where
  "wrong_year v = (v \<noteq> PNone \<and> int_value v = None)"


section \<open>Examples\<close>

text \<open>
  Instances of the two builtins for the examples: lower-casing of the ASCII letters, and
  \<^verbatim>\<open>int\<close> of an unsigned ASCII decimal numeral. On such texts they agree with Python.
\<close>

definition text_of :: "string \<Rightarrow> pystr" where
  "text_of = map of_char"

definition ascii_lower :: "pystr \<Rightarrow> pystr" where
  "ascii_lower = map (\<lambda>c. if 65 \<le> c \<and> c \<le> 90 then c + 32 else c)"

fun digits_value :: "int \<Rightarrow> pystr \<Rightarrow> int option" where
  "digits_value acc [] = Some acc"
| "digits_value acc (c # cs) =
     (if 48 \<le> c \<and> c \<le> 57 then digits_value (10 * acc + int (c - 48)) cs else None)"

definition decimal :: "pystr \<Rightarrow> int option" where
  "decimal s = (if s = [] then None else digits_value 0 s)"

text \<open>Orwell's 1984, in stock, and Tolstoy's War and Peace, in Russian, issued.\<close>

definition book_1984 :: book where
  "book_1984 =
     \<lparr>book_id = PInt 1, title = PStr (text_of ''1984''), author = PStr (text_of ''Orwell''),
      year = PInt 1949, status = PStr in_stock\<rparr>"

definition book_war :: book where
  "book_war =
     \<lparr>book_id = PInt 2,
      title = PStr [0x412, 0x43E, 0x439, 0x43D, 0x430, 0x20, 0x438, 0x20, 0x43C, 0x438, 0x440],
      author = PStr [0x422, 0x43E, 0x43B, 0x441, 0x442, 0x43E, 0x439],
      year = PInt 1869, status = PStr issued\<rparr>"

definition shelf :: library where
  "shelf =
     \<lparr>books = [book_1984, book_war], next_id = 3,
      data_file = Document (PList [to_dict book_1984, to_dict book_war])\<rparr>"

text \<open>The library that is constructed where there is no data file, and after it was used.\<close>

definition empty_library :: library where
  "empty_library = \<lparr>books = [], next_id = 1, data_file = Document (PList [])\<rparr>"



section \<open>Auxiliary facts\<close>

lemma valid_status_iff: "valid_status st \<longleftrightarrow> st = PStr in_stock \<or> st = PStr issued"
  by (cases st) (auto simp: valid_status_def)

lemma books_save_data: "books (save_data w s) = books s"
  by (cases w) (simp_all add: save_data_def)


lemma set_status_ids: "set_status i st bs = Some bs' \<Longrightarrow> map book_id bs' = map book_id bs"
  by (induction bs arbitrary: bs') (auto split: if_splits)


lemma text_filter_str:
  "\<forall>b\<in>set bs. is_str (field b) \<Longrightarrow>
   text_filter lower field needle bs = Inr (filter (\<lambda>b. ci_substring lower needle (field b)) bs)"
proof (induction bs)
  case Nil
  then show ?case by simp
next
  case (Cons b bs)
  then obtain t where "field b = PStr t" by (cases "field b") auto
  with Cons show ?case by (simp add: ci_substring_def)
qed

subsection \<open>The data file\<close>







subsection \<open>The filters of a search\<close>




lemma text_stage_any:
  assumes "\<forall>b\<in>set bs. is_str (field b)"
  shows "(if v \<noteq> PNone
          then (case v of PStr n \<Rightarrow> text_filter lower field n bs | _ \<Rightarrow> Inl TypeError)
          else Inr bs)
         = (if wrong_text v then Inl TypeError
            else Inr (filter (\<lambda>b. case v of PStr n \<Rightarrow> ci_substring lower n (field b) | _ \<Rightarrow> True) bs))"
  using text_filter_str [OF assms] by (cases v) (simp_all add: wrong_text_def)

lemma year_stage_any:
  "(if v \<noteq> PNone
    then (if int_value v = None then Inl TypeError
          else Inr (filter (\<lambda>b. py_eq (year b) v) bs))
    else Inr bs)
   = (if wrong_year v then Inl TypeError
      else Inr (filter (\<lambda>b. v = PNone \<or> py_eq (year b) v) bs))"
  by (simp add: wrong_year_def)

subsection \<open>The counter\<close>











lemma append_book_result:
  "append_book w s b =
     (Inr (b\<lparr>book_id := PInt (next_id s)\<rparr>),
      save_data w (s\<lparr>next_id := next_id s + 1,
                     books := books s @ [b\<lparr>book_id := PInt (next_id s)\<rparr>]\<rparr>))"
  by (simp add: append_book_def Let_def)

lemma add_book_cases:
  "snd (add_book str_int w s x a y) = s \<and> (\<exists>e. fst (add_book str_int w s x a y) = Inl e)
   \<or> (\<exists>b. add_book str_int w s x a y = append_book w s b)"
  by (auto simp: add_book_def split: add_arg.splits sum.splits)



lemma search_book_state: "snd (search_book lower s t a y) = s"
  by (simp add: search_book_def split: sum.splits)





subsection \<open>Unique identifiers\<close>




text \<open>Every call keeps the identifiers unique, where they are below the counter.\<close>

lemma append_book_unique:
  assumes "counted s" and "unique_ids s"
  shows "unique_ids (snd (append_book w s b))"
proof -
  have "Some (next_id s) \<notin> (\<lambda>b. int_value (book_id b)) ` set (books s)"
    using assms(1) by (auto simp: counted_def below_def split: option.splits)
  with assms(2) show ?thesis
    by (simp add: append_book_result unique_ids_def books_save_data)
qed

lemma add_book_unique:
  assumes "counted s" and "unique_ids s"
  shows "unique_ids (snd (add_book str_int w s x a y))"
  using assms add_book_cases [of str_int w s x a y] append_book_unique [OF assms]
  by auto

lemma delete_book_unique:
  assumes "unique_ids s"
  shows "unique_ids (snd (delete_book w s i))"
  using assms
  by (simp add: delete_book_def Let_def unique_ids_def books_save_data list_all_iff
        distinct_map_filter)

lemma change_status_unique:
  assumes "unique_ids s"
  shows "unique_ids (snd (change_status w s i st))"
proof (cases "set_status i st (books s)")
  case None
  with assms show ?thesis by (simp add: change_status_def)
next
  case (Some bs)
  have "map (\<lambda>b. int_value (book_id b)) bs = map int_value (map book_id bs)"
    by simp
  also have "\<dots> = map int_value (map book_id (books s))"
    using set_status_ids [OF Some] by simp
  finally have m: "map (\<lambda>b. int_value (book_id b)) bs = map (\<lambda>b. int_value (book_id b)) (books s)"
    by simp
  have "list_all (\<lambda>b. int_value (book_id b) \<noteq> None) bs
          \<longleftrightarrow> list_all (\<lambda>v. v \<noteq> None) (map (\<lambda>b. int_value (book_id b)) bs)"
    by (simp add: list_all_iff)
  also have "\<dots> \<longleftrightarrow> list_all (\<lambda>b. int_value (book_id b) \<noteq> None) (books s)"
    unfolding m by (simp add: list_all_iff)
  finally have "unique_ids (s\<lparr>books := bs\<rparr>)"
    using assms m by (simp add: unique_ids_def)
  then have "unique_ids (save_data w (s\<lparr>books := bs\<rparr>))"
    by (simp add: unique_ids_def books_save_data)
  with Some assms show ?thesis by (simp add: change_status_def)
qed

lemma exec_unique_ids:
  assumes "counted s" and "unique_ids s"
  shows "unique_ids (exec str_int lower w c s)"
  using assms add_book_unique delete_book_unique change_status_unique
  by (cases c) (simp_all add: exec_def search_book_state)

subsection \<open>An example history\<close>





section \<open>Adding a book\<close>




text \<open>
  C10. With a first argument that is not a \<^verbatim>\<open>Book\<close> instance (so for every title, empty
  or not) and every author, \<^verbatim>\<open>add_book(title, author, 0)\<close> raises \<^verbatim>\<open>InvalidInputError\<close>:
  \<^verbatim>\<open>not year\<close> holds of the integer 0, which the check takes for a missing field. The
  books, the counter and the data file are as before the call.
\<close>

theorem add_book_year_zero:
  "add_book str_int w s (AVal t) a (PInt 0) = (Inl InvalidInputError, s)"
  by (simp add: add_book_def)

theorem add_book_year_zero_witness:
  "add_book decimal Written shelf (AVal (PStr (text_of ''1984''))) (PStr (text_of ''Orwell'')) (PInt 0)
   = (Inl InvalidInputError, shelf)"
  by (rule add_book_year_zero)

section \<open>The counter of identifiers\<close>



section \<open>Deleting a book\<close>



section \<open>Changing a status\<close>



text \<open>
  C9. When no record has the id and the status is neither of the two texts,
  \<^verbatim>\<open>change_status\<close> raises \<^verbatim>\<open>InvalidStatusError\<close>, not \<^verbatim>\<open>BookNotFoundError\<close>: the status is
  checked before the books are looked through. The library is as before the call.
\<close>

theorem invalid_status_before_lookup:
  assumes "\<not> valid_status st" and "\<forall>b\<in>set (books s). \<not> py_eq (book_id b) i"
  shows "change_status w s i st = (Inl InvalidStatusError, s)"
  using assms(1) by (simp add: change_status_def)

theorem invalid_status_before_lookup_witness:
  "\<not> valid_status (PStr (text_of ''lost''))
   \<and> list_all (\<lambda>b. \<not> py_eq (book_id b) (PInt 7)) (books shelf)
   \<and> change_status Written shelf (PInt 7) (PStr (text_of ''lost'')) = (Inl InvalidStatusError, shelf)
   \<and> change_status Written shelf (PInt 7) (PStr issued) = (Inl BookNotFoundError, shelf)"
proof -
  have n: "\<not> valid_status (PStr (text_of ''lost''))"
    by (simp add: valid_status_def in_stock_def issued_def text_of_def)
  have a: "\<forall>b\<in>set (books shelf). \<not> py_eq (book_id b) (PInt 7)"
    by (simp add: shelf_def book_1984_def book_war_def)
  have f: "change_status Written shelf (PInt 7) (PStr issued) = (Inl BookNotFoundError, shelf)"
    by (simp add: change_status_def valid_status_iff shelf_def book_1984_def book_war_def)
  from invalid_status_before_lookup [OF n a, of Written] show ?thesis
    using n a f by (simp add: list_all_iff)
qed

section \<open>Saving and loading\<close>






section \<open>Searching\<close>



text \<open>
  C2, amended. In a catalogue of valid records, \<^verbatim>\<open>search_book\<close> with a supplied filter of
  the wrong type (a title or an author that is not a string, a year that is not an
  integer) raises the builtin \<^verbatim>\<open>TypeError\<close>, and the library is as before the call.
\<close>

theorem search_wrong_type_raises_TypeError:
  assumes valid: "\<forall>b\<in>set (books s). valid_record b"
    and wrong: "wrong_text t \<or> wrong_text a \<or> wrong_year y"
  shows "search_book lower s t a y = (Inl TypeError, s)"
proof -
  define r1 where "r1 = filter (\<lambda>b. case t of PStr n \<Rightarrow> ci_substring lower n (title b) | _ \<Rightarrow> True) (books s)"
  define r2 where "r2 = filter (\<lambda>b. case a of PStr n \<Rightarrow> ci_substring lower n (author b) | _ \<Rightarrow> True) r1"
  have T: "\<forall>b\<in>set (books s). is_str (title b)"
    using valid by (simp add: valid_record_def)
  have A: "\<forall>b\<in>set r1. is_str (author b)"
    using valid by (simp add: valid_record_def r1_def)
  have s1: "(if t \<noteq> PNone
          then (case t of PStr n \<Rightarrow> text_filter lower title n (books s) | _ \<Rightarrow> Inl TypeError)
          else Inr (books s)) = (if wrong_text t then Inl TypeError else Inr r1)"
    using text_stage_any [OF T] by (simp add: r1_def)
  have s2: "(if a \<noteq> PNone
          then (case a of PStr n \<Rightarrow> text_filter lower author n r1 | _ \<Rightarrow> Inl TypeError)
          else Inr r1) = (if wrong_text a then Inl TypeError else Inr r2)"
    using text_stage_any [OF A] by (simp add: r2_def)
  show ?thesis
  proof (cases "wrong_text t")
    case True
    then show ?thesis unfolding search_book_def s1 by simp
  next
    case False
    note t = this
    show ?thesis
    proof (cases "wrong_text a")
      case True
      then show ?thesis unfolding search_book_def s1 using t by (simp add: s2)
    next
      case False
      with t wrong have "wrong_year y" by simp
      then show ?thesis unfolding search_book_def s1 year_stage_any
        using t False by (simp add: s2)
    qed
  qed
qed

theorem search_wrong_type_raises_TypeError_witness:
  "list_all valid_record (books shelf)
   \<and> wrong_year (PStr (text_of ''1949''))
   \<and> search_book ascii_lower shelf (PStr (text_of ''98'')) PNone (PStr (text_of ''1949''))
       = (Inl TypeError, shelf)"
proof -
  have v: "\<forall>b\<in>set (books shelf). valid_record b"
    by (simp add: valid_record_def shelf_def book_1984_def book_war_def)
  have y: "wrong_year (PStr (text_of ''1949''))" by (simp add: wrong_year_def)
  then have w: "wrong_text (PStr (text_of ''98'')) \<or> wrong_text PNone \<or> wrong_year (PStr (text_of ''1949''))"
    by simp
  from search_wrong_type_raises_TypeError [OF v w, of ascii_lower] show ?thesis
    using v y by (simp add: list_all_iff)
qed

text \<open>
  The exception is not the module's \<^verbatim>\<open>InvalidInputError\<close>: a year given as text makes
  the search of the empty library raise \<^verbatim>\<open>TypeError\<close>.
\<close>

theorem search_wrong_type_not_InvalidInput:
  "fst (search_book ascii_lower empty_library PNone PNone (PStr (text_of ''1949''))) = Inl TypeError
   \<and> fst (search_book ascii_lower empty_library PNone PNone (PStr (text_of ''1949'')))
       \<noteq> Inl InvalidInputError"
  by (simp add: search_book_def)

end
